theory Spec2Isabelle
  imports Complex_Main
begin

section \<open>JavaScript values used by the application\<close>

text \<open>
  The component in \<^verbatim>\<open>App.js\<close> computes with JavaScript strings and Numbers. Strings are
  modelled as HOL strings, read as sequences of code units below 256 (the Latin-1 range of
  UTF-16), so that \<^verbatim>\<open>length\<close> is the list length. Numbers that hold integers (ids, clock
  readings in milliseconds, elapsed seconds, durations) are modelled as \<open>int\<close>: JavaScript
  computes with them exactly while they stay below \<open>2^53\<close>. Numbers that hold fractions are
  modelled as the rational value of the IEEE double, and every arithmetic result is rounded
  to the nearest double by \<open>fl\<close>. The value \<open>-0\<close> is identified with \<open>0\<close>; no function of the
  component tells them apart.
\<close>

datatype jsnum = NaN | NegInf | Num rat | PosInf

subsection \<open>Strings: \<^verbatim>\<open>trim\<close> and \<^verbatim>\<open>toLowerCase\<close>\<close>

definition is_white_space :: "char \<Rightarrow> bool" where
  "is_white_space c = (of_char c \<in> {9, 10, 11, 12, 13, 32, 160 :: nat})"

definition trimStart :: "string \<Rightarrow> string" where
  "trimStart s = dropWhile is_white_space s"

definition trim :: "string \<Rightarrow> string" where
  "trim s = rev (dropWhile is_white_space (rev (dropWhile is_white_space s)))"

definition lower_char :: "char \<Rightarrow> char" where
  "lower_char c =
     (let n = of_char c :: nat
      in if (65 \<le> n \<and> n \<le> 90) \<or> (192 \<le> n \<and> n \<le> 222 \<and> n \<noteq> 215)
         then char_of (n + 32) else c)"

definition toLowerCase :: "string \<Rightarrow> string" where
  "toLowerCase s = map lower_char s"

subsection \<open>Rounding to the nearest double\<close>

function bit_length :: "int \<Rightarrow> int" where
  "bit_length n = (if n \<le> 0 then 0 else bit_length (n div 2) + 1)"
  by pat_completeness auto
termination
  by (relation "measure nat") auto

declare bit_length.simps [simp del]

definition pow2 :: "int \<Rightarrow> rat" where
  "pow2 e = (if 0 \<le> e then 2 ^ nat e else 1 / 2 ^ nat (- e))"

definition pow10 :: "int \<Rightarrow> rat" where
  "pow10 e = (if 0 \<le> e then 10 ^ nat e else 1 / 10 ^ nat (- e))"

definition floor_log2 :: "rat \<Rightarrow> int" where
  "floor_log2 a =
     (let (p, q) = quotient_of a;
          k = bit_length p - bit_length q
      in if pow2 k \<le> a then k else k - 1)"

definition round_half_even :: "rat \<Rightarrow> int" where
  "round_half_even a =
     (let f = \<lfloor>a\<rfloor>; r = a - of_int f
      in if r < 1 / 2 then f
         else if 1 / 2 < r then f + 1
         else if even f then f else f + 1)"

text \<open>
  \<open>fl q\<close> is the double nearest to \<open>q\<close> (ties to even): a significand of at most 53 bits,
  the exponent of subnormal numbers at its minimum of \<open>-1074\<close>, and an infinity once the
  rounded magnitude reaches \<open>2^1024\<close>.
\<close>

definition fl :: "rat \<Rightarrow> jsnum" where
  "fl q =
     (if q = 0 then Num 0
      else let a = \<bar>q\<bar>;
               e = max (floor_log2 a - 52) (- 1074);
               m = round_half_even (a / pow2 e);
               r = of_int m * pow2 e
           in if 1024 < bit_length m + e then (if 0 < q then PosInf else NegInf)
              else Num (if 0 < q then r else - r))"

text \<open>
  The operator \<^verbatim>\<open>*\<close> on Numbers. The only division of the component, by the constant
  3600, is written \<open>fl (a / 3600)\<close> where it occurs.
\<close>

fun js_mul :: "jsnum \<Rightarrow> jsnum \<Rightarrow> jsnum" where
  "js_mul (Num a) (Num b) = fl (a * b)"
| "js_mul NaN _ = NaN"
| "js_mul _ NaN = NaN"
| "js_mul (Num a) PosInf = (if a = 0 then NaN else if 0 < a then PosInf else NegInf)"
| "js_mul (Num a) NegInf = (if a = 0 then NaN else if 0 < a then NegInf else PosInf)"
| "js_mul PosInf (Num b) = (if b = 0 then NaN else if 0 < b then PosInf else NegInf)"
| "js_mul NegInf (Num b) = (if b = 0 then NaN else if 0 < b then NegInf else PosInf)"
| "js_mul PosInf PosInf = PosInf"
| "js_mul NegInf NegInf = PosInf"
| "js_mul PosInf NegInf = NegInf"
| "js_mul NegInf PosInf = NegInf"

text \<open>Truthiness of a Number, and the comparisons \<^verbatim>\<open>>=\<close> and \<^verbatim>\<open><=\<close> against a finite bound.\<close>

fun num_truthy :: "jsnum \<Rightarrow> bool" where
  "num_truthy (Num q) = (q \<noteq> 0)"
| "num_truthy NaN = False"
| "num_truthy _ = True"

fun js_ge :: "jsnum \<Rightarrow> rat \<Rightarrow> bool" where
  "js_ge (Num q) b = (b \<le> q)"
| "js_ge PosInf b = True"
| "js_ge _ b = False"

fun js_le :: "jsnum \<Rightarrow> rat \<Rightarrow> bool" where
  "js_le (Num q) b = (q \<le> b)"
| "js_le NegInf b = True"
| "js_le _ b = False"

definition isNaN :: "jsnum \<Rightarrow> bool" where
  "isNaN x = (x = NaN)"

subsection \<open>\<^verbatim>\<open>parseFloat\<close>, \<^verbatim>\<open>parseInt\<close> and the conversion of a string to a Number\<close>

definition is_digit :: "char \<Rightarrow> bool" where
  "is_digit c = (48 \<le> (of_char c :: nat) \<and> (of_char c :: nat) \<le> 57)"

definition digit_val :: "char \<Rightarrow> int" where
  "digit_val c =
     (let n = int (of_char c)
      in if 48 \<le> n \<and> n \<le> 57 then n - 48
         else if 97 \<le> n \<and> n \<le> 122 then n - 87
         else if 65 \<le> n \<and> n \<le> 90 then n - 55
         else 36)"

definition is_radix_digit :: "int \<Rightarrow> char \<Rightarrow> bool" where
  "is_radix_digit r c = (digit_val c < r)"

definition digits_val :: "int \<Rightarrow> string \<Rightarrow> int" where
  "digits_val r ds = foldl (\<lambda>a c. r * a + digit_val c) 0 ds"

definition take_sign :: "string \<Rightarrow> bool \<times> string" where
  "take_sign s =
     (case s of
        [] \<Rightarrow> (False, s)
      | c # r \<Rightarrow> if c = CHR ''-'' then (True, r)
                 else if c = CHR ''+'' then (False, r) else (False, s))"

text \<open>
  \<open>exponent_part s\<close> reads an \<^verbatim>\<open>ExponentPart\<close> (\<^verbatim>\<open>e\<close> or \<^verbatim>\<open>E\<close>, an optional sign, at least one
  digit) at the head of \<open>s\<close> and returns its value and the rest; without one, the exponent
  is 0 and nothing is consumed.
\<close>

definition exponent_part :: "string \<Rightarrow> int \<times> string" where
  "exponent_part s =
     (case s of
        [] \<Rightarrow> (0, s)
      | c # r \<Rightarrow>
          if c = CHR ''e'' \<or> c = CHR ''E''
          then (let (neg, r1) = take_sign r; ds = takeWhile is_digit r1
                in if ds = [] then (0, s)
                   else ((if neg then - digits_val 10 ds else digits_val 10 ds),
                         dropWhile is_digit r1))
          else (0, s))"

text \<open>
  The longest prefix that is a \<^verbatim>\<open>StrUnsignedDecimalLiteral\<close>: \<open>None\<close> when there is none,
  otherwise its exact value (\<open>None\<close> for \<^verbatim>\<open>Infinity\<close>) and the rest of the string.
\<close>

definition str_unsigned_decimal :: "string \<Rightarrow> (rat option \<times> string) option" where
  "str_unsigned_decimal s =
     (if take 8 s = ''Infinity'' then Some (None, drop 8 s)
      else let ip = takeWhile is_digit s;
               r1 = dropWhile is_digit s;
               (fp, r2) = (case r1 of
                             [] \<Rightarrow> ([], r1)
                           | c # r \<Rightarrow> if c = CHR ''.''
                                      then (takeWhile is_digit r, dropWhile is_digit r)
                                      else ([], r1))
           in if ip = [] \<and> fp = [] then None
              else let (ex, r3) = exponent_part r2
                   in Some (Some (of_int (digits_val 10 (ip @ fp)) * pow10 (ex - int (length fp))),
                            r3))"

definition signed_value :: "bool \<Rightarrow> rat option \<Rightarrow> jsnum" where
  "signed_value neg v =
     (case v of
        None \<Rightarrow> if neg then NegInf else PosInf
      | Some q \<Rightarrow> fl (if neg then - q else q))"

definition parseFloat :: "string \<Rightarrow> jsnum" where
  "parseFloat s =
     (let (neg, t) = take_sign (trimStart s)
      in case str_unsigned_decimal t of
           None \<Rightarrow> NaN
         | Some (v, rest) \<Rightarrow> signed_value neg v)"

text \<open>
  \<^verbatim>\<open>parseInt(s)\<close> without a radix: leading white space, a sign, an optional \<^verbatim>\<open>0x\<close>, then the
  longest run of digits of the radix. The result is a Number: the integer that was read,
  rounded to the nearest double, or \<^verbatim>\<open>NaN\<close> without a digit.
\<close>

definition parseInt :: "string \<Rightarrow> jsnum" where
  "parseInt s =
     (let (neg, t) = take_sign (trimStart s);
          hex = (take 2 t = ''0x'' \<or> take 2 t = ''0X'');
          r = (if hex then 16 else 10);
          z = takeWhile (is_radix_digit r) (if hex then drop 2 t else t)
      in if z = [] then NaN
         else fl (of_int (if neg then - digits_val r z else digits_val r z)))"

text \<open>
  \<^verbatim>\<open>Number(s)\<close>, applied by \<^verbatim>\<open>*\<close> to a string operand: the whole trimmed string must be a
  numeric literal, and the empty string is 0.
\<close>

definition non_decimal_radix :: "string \<Rightarrow> int option" where
  "non_decimal_radix t =
     (if take 2 t = ''0x'' \<or> take 2 t = ''0X'' then Some 16
      else if take 2 t = ''0o'' \<or> take 2 t = ''0O'' then Some 8
      else if take 2 t = ''0b'' \<or> take 2 t = ''0B'' then Some 2
      else None)"

definition toNumber :: "string \<Rightarrow> jsnum" where
  "toNumber s =
     (let t = trim s
      in if t = [] then Num 0
         else case non_decimal_radix t of
                Some r \<Rightarrow>
                  if drop 2 t \<noteq> [] \<and> list_all (is_radix_digit r) (drop 2 t)
                  then fl (of_int (digits_val r (drop 2 t))) else NaN
              | None \<Rightarrow>
                  (let (neg, u) = take_sign t
                   in case str_unsigned_decimal u of
                        None \<Rightarrow> NaN
                      | Some (v, rest) \<Rightarrow> if rest = [] then signed_value neg v else NaN))"

subsection \<open>\<^verbatim>\<open>Number.prototype.toFixed\<close>\<close>

function digits_of :: "int \<Rightarrow> string" where
  "digits_of n =
     (if n < 10 then [char_of (48 + nat n)]
      else digits_of (n div 10) @ [char_of (48 + nat (n mod 10))])"
  by pat_completeness auto
termination
  by (relation "measure nat") auto

declare digits_of.simps [simp del]

text \<open>
  \<open>fixed_digits d n\<close> writes the integer \<open>n \<ge> 0\<close> with a decimal point before its last \<open>d\<close>
  digits, padding with zeros on the left to at least \<open>d + 1\<close> digits.
\<close>

definition fixed_digits :: "nat \<Rightarrow> int \<Rightarrow> string" where
  "fixed_digits d n =
     (let m = digits_of n;
          m' = replicate (d + 1 - length m) CHR ''0'' @ m;
          k = length m'
      in if d = 0 then m else take (k - d) m' @ ''.'' @ drop (k - d) m')"

text \<open>
  \<^verbatim>\<open>x.toFixed(d)\<close>. The integer \<open>n\<close> for which \<open>n / 10^d - x\<close> is closest to zero, the larger
  one of two, is \<open>\<lfloor>x * 10^d + 1/2\<rfloor>\<close>. For a value that is not finite or whose magnitude
  reaches \<open>10^21\<close>, ECMAScript returns \<^verbatim>\<open>Number::toString(x)\<close>; that function is the
  parameter \<open>numberToString\<close>.
\<close>

definition toFixed :: "(jsnum \<Rightarrow> string) \<Rightarrow> nat \<Rightarrow> jsnum \<Rightarrow> string" where
  "toFixed numberToString d x =
     (case x of
        Num q \<Rightarrow>
          if 10 ^ 21 \<le> \<bar>q\<bar> then numberToString x
          else (if q < 0 then ''-'' else []) @ fixed_digits d \<lfloor>\<bar>q\<bar> * 10 ^ d + 1 / 2\<rfloor>
      | _ \<Rightarrow> numberToString x)"

section \<open>The data model of the component\<close>

text \<open>
  \<open>'d\<close> is the type of \<^verbatim>\<open>Date\<close> objects; the component only stores them and formats them for
  the export. An id is the clock reading \<^verbatim>\<open>Date.now()\<close> at creation. The client id of a
  project is the result of \<^verbatim>\<open>parseInt\<close>, any Number. A rate is a finite Number. A status is
  the string \<^verbatim>\<open>'paused'\<close> or \<^verbatim>\<open>'completed'\<close>.
\<close>

record 'd Client =
  client_id :: int
  client_name :: string
  client_createdAt :: 'd

record 'd Project =
  project_id :: int
  project_name :: string
  project_clientId :: jsnum
  project_rate :: rat
  project_createdAt :: 'd

record 'd TimeEntry =
  entry_id :: int
  entry_projectId :: int
  entry_duration :: int
  entry_date :: 'd
  entry_status :: string

record NewProject =
  np_name :: string
  np_clientId :: string
  np_rate :: string

datatype AppStateStatus = Active | Background | Inactive | Unknown | Extension

text \<open>
  The messages given to \<^verbatim>\<open>showError\<close>, tagged with the kind of error they report.
\<close>

datatype app_error =
    ValidationError string
  | DuplicateError string
  | LoadError string
  | SaveError string
  | ExportError string

datatype js_exception = TypeError

text \<open>
  The state of \<^verbatim>\<open>DaybookApp\<close>: its \<^verbatim>\<open>useState\<close> cells, the two refs \<^verbatim>\<open>appState\<close> and
  \<^verbatim>\<open>backgroundStartTime\<close>, and whether the one-second interval of the timer effect is
  currently registered.
\<close>

record 'd app =
  clients :: "'d Client list"
  projects :: "'d Project list"
  timeEntries :: "'d TimeEntry list"
  activeTimer :: "int option"
  currentTime :: int
  timerStartTime :: "int option"
  showClientModal :: bool
  showProjectModal :: bool
  newClient :: string
  newProject :: NewProject
  isExporting :: bool
  error :: "app_error option"
  appState :: "AppStateStatus option"
  backgroundStartTime :: "int option"
  interval_set :: bool

definition initial_app :: "AppStateStatus option \<Rightarrow> 'd app" where
  "initial_app currentState =
     \<lparr> clients = [], projects = [], timeEntries = [], activeTimer = None, currentTime = 0,
       timerStartTime = None, showClientModal = False, showProjectModal = False,
       newClient = [], newProject = \<lparr> np_name = [], np_clientId = [], np_rate = [] \<rparr>,
       isExporting = False, error = None, appState = currentState,
       backgroundStartTime = None, interval_set = False \<rparr>"

text \<open>Truthiness of a Number-or-null cell: \<^verbatim>\<open>null\<close> and 0 are falsy.\<close>

definition truthy :: "int option \<Rightarrow> bool" where
  "truthy v = (case v of None \<Rightarrow> False | Some n \<Rightarrow> n \<noteq> 0)"

text \<open>\<^verbatim>\<open>===\<close> on two Numbers: \<^verbatim>\<open>NaN\<close> equals nothing, not even itself.\<close>

definition strict_eq :: "jsnum \<Rightarrow> jsnum \<Rightarrow> bool" where
  "strict_eq a b = (a \<noteq> NaN \<and> a = b)"

definition showError :: "app_error \<Rightarrow> 'd app \<Rightarrow> 'd app" where
  "showError message s = s\<lparr>error := Some message\<rparr>"

section \<open>Domain store: clients and projects\<close>

definition validateInput :: "string \<Rightarrow> string \<Rightarrow> bool" where
  "validateInput text type =
     (if type = ''client'' then 0 < length (trim text) \<and> length (trim text) \<le> 50
      else if type = ''project'' then 0 < length (trim text) \<and> length (trim text) \<le> 50
      else if type = ''rate''
      then text = [] \<or>
           (\<not> isNaN (parseFloat text) \<and> js_ge (parseFloat text) 0
            \<and> js_le (parseFloat text) 10000)
      else True)"

text \<open>
  \<open>addClient now date s\<close>: \<open>now\<close> is the value of \<^verbatim>\<open>Date.now()\<close> and \<open>date\<close> the object
  \<^verbatim>\<open>new Date()\<close> at the call.
\<close>

definition addClient :: "int \<Rightarrow> 'd \<Rightarrow> 'd app \<Rightarrow> 'd app" where
  "addClient now date s =
     (if \<not> validateInput (newClient s) ''client''
      then showError (ValidationError ''Client name must be 1-50 characters long'') s
      else if list_ex (\<lambda>client. toLowerCase (client_name client)
                                  = toLowerCase (trim (newClient s))) (clients s)
      then showError (DuplicateError ''A client with this name already exists'') s
      else s\<lparr> clients := clients s @
                 [\<lparr> client_id = now, client_name = trim (newClient s),
                    client_createdAt = date \<rparr>],
               newClient := [],
               showClientModal := False \<rparr>)"

text \<open>\<^verbatim>\<open>parseFloat(text) || 0\<close>, for a text that \<open>validateInput\<close> accepted as a rate.\<close>

definition rate_or_zero :: "string \<Rightarrow> rat" where
  "rate_or_zero text = (case parseFloat text of Num q \<Rightarrow> q | _ \<Rightarrow> 0)"

definition addProject :: "int \<Rightarrow> 'd \<Rightarrow> 'd app \<Rightarrow> 'd app" where
  "addProject now date s =
     (let np = newProject s
      in if \<not> validateInput (np_name np) ''project''
         then showError (ValidationError ''Project name must be 1-50 characters long'') s
         else if np_clientId np = []
         then showError (ValidationError ''Please select a client'') s
         else if \<not> validateInput (np_rate np) ''rate''
         then showError
                (ValidationError ''Hourly rate must be a valid number between 0 and 10,000'') s
         else case find (\<lambda>project.
                       strict_eq (project_clientId project) (parseInt (np_clientId np))
                       \<and> toLowerCase (project_name project)
                           = toLowerCase (trim (np_name np))) (projects s) of
                Some existingProject \<Rightarrow>
                  showError
                    (DuplicateError
                       ''A project with this name already exists for this client'') s
              | None \<Rightarrow>
                  s\<lparr> projects := projects s @
                        [\<lparr> project_id = now, project_name = trim (np_name np),
                           project_clientId = parseInt (np_clientId np),
                           project_rate = rate_or_zero (np_rate np),
                           project_createdAt = date \<rparr>],
                     newProject := \<lparr> np_name = [], np_clientId = [], np_rate = [] \<rparr>,
                     showProjectModal := False \<rparr>)"

section \<open>Timer engine\<close>

text \<open>
  A handler reads the state of the last render and queues its updates; the model returns
  the state after the queue is applied. The calls to the notification library and to
  \<^verbatim>\<open>saveTimerState\<close> write to collaborators only and leave the state of the component alone.
\<close>

definition stopTimer :: "int \<Rightarrow> 'd \<Rightarrow> 'd app \<Rightarrow> 'd app" where
  "stopTimer now date s =
     (let s1 = (if truthy (activeTimer s) \<and> 0 < currentTime s
                then s\<lparr> timeEntries := timeEntries s @
                           [\<lparr> entry_id = now, entry_projectId = the (activeTimer s),
                              entry_duration = currentTime s, entry_date = date,
                              entry_status = ''completed'' \<rparr>] \<rparr>
                else s)
      in s1\<lparr> activeTimer := None, currentTime := 0, timerStartTime := None \<rparr>)"

definition pauseTimer :: "int \<Rightarrow> 'd \<Rightarrow> 'd app \<Rightarrow> 'd app" where
  "pauseTimer now date s =
     (let s1 = (if truthy (activeTimer s) \<and> 0 < currentTime s
                then s\<lparr> timeEntries := timeEntries s @
                           [\<lparr> entry_id = now, entry_projectId = the (activeTimer s),
                              entry_duration = currentTime s, entry_date = date,
                              entry_status = ''paused'' \<rparr>] \<rparr>
                else s)
      in s1\<lparr> activeTimer := None, currentTime := 0, timerStartTime := None \<rparr>)"

text \<open>
  \<open>startTimer now0 date0 now projectId s\<close>: \<open>now0\<close> and \<open>date0\<close> are the clock readings of the
  nested call of \<open>stopTimer\<close>, \<open>now\<close> the reading taken for \<^verbatim>\<open>startTime\<close>.
\<close>

definition startTimer :: "int \<Rightarrow> 'd \<Rightarrow> int \<Rightarrow> int \<Rightarrow> 'd app \<Rightarrow> 'd app" where
  "startTimer now0 date0 now projectId s =
     (let s1 = (if truthy (activeTimer s) \<and> activeTimer s \<noteq> Some projectId
                then stopTimer now0 date0 s else s)
      in s1\<lparr> activeTimer := Some projectId, currentTime := 0, timerStartTime := Some now \<rparr>)"

subsection \<open>The timer effect and the application-state listener\<close>

text \<open>
  The timer effect has the dependency list \<^verbatim>\<open>[activeTimer]\<close>: React runs its cleanup and
  its body again after a render in which \<^verbatim>\<open>activeTimer\<close> changed, and at no other time.
  The body registers the interval when a timer is active and \<^verbatim>\<open>appState.current\<close> is
  \<^verbatim>\<open>'active'\<close> at that moment; the cleanup clears it.
\<close>

definition timer_effect :: "'d app \<Rightarrow> 'd app" where
  "timer_effect s =
     s\<lparr>interval_set := (truthy (activeTimer s) \<and> appState s = Some Active)\<rparr>"

definition render :: "'d app \<Rightarrow> 'd app \<Rightarrow> 'd app" where
  "render prev next =
     (if activeTimer next = activeTimer prev then next else timer_effect next)"

text \<open>The callback of the interval, which runs once a second while the interval is registered.\<close>

definition tick :: "'d app \<Rightarrow> 'd app" where
  "tick s = (if interval_set s then s\<lparr>currentTime := currentTime s + 1\<rparr> else s)"

definition matches_inactive_or_background :: "AppStateStatus \<Rightarrow> bool" where
  "matches_inactive_or_background a = (a = Inactive \<or> a = Background)"

text \<open>
  \<open>handleAppStateChange now nextAppState s\<close>, with \<open>now\<close> the value of \<^verbatim>\<open>Date.now()\<close>.
  \<^verbatim>\<open>Math.floor(x / 1000)\<close> on an integer \<open>x\<close> is the integer division. When
  \<^verbatim>\<open>appState.current\<close> is \<^verbatim>\<open>null\<close>, as \<^verbatim>\<open>AppState.currentState\<close> may be at launch, the call of
  \<^verbatim>\<open>match\<close> throws.
\<close>

definition handleAppStateChange ::
  "int \<Rightarrow> AppStateStatus \<Rightarrow> 'd app \<Rightarrow> js_exception + 'd app" where
  "handleAppStateChange now nextAppState s =
     (if truthy (activeTimer s)
      then (case appState s of
              None \<Rightarrow> Inl TypeError
            | Some current \<Rightarrow>
                if matches_inactive_or_background current \<and> nextAppState = Active
                then (if truthy (backgroundStartTime s)
                      then Inr (s\<lparr> currentTime :=
                                     currentTime s + (now - the (backgroundStartTime s)) div 1000,
                                   backgroundStartTime := None,
                                   appState := Some nextAppState \<rparr>)
                      else Inr (s\<lparr>appState := Some nextAppState\<rparr>))
                else if current = Active \<and> matches_inactive_or_background nextAppState
                then Inr (s\<lparr> backgroundStartTime := Some now,
                              appState := Some nextAppState \<rparr>)
                else Inr (s\<lparr>appState := Some nextAppState\<rparr>))
      else Inr (s\<lparr>appState := Some nextAppState\<rparr>))"

section \<open>Persistence adapter: \<^verbatim>\<open>loadData\<close>\<close>

text \<open>
  What \<^verbatim>\<open>AsyncStorage.getItem\<close> and the statements of \<open>loadData\<close> make of one key:
  \<^item> \<open>ReadFails\<close>: the read is rejected;
  \<^item> \<open>NoItem\<close>: there is no item, or an empty one (a falsy value);
  \<^item> \<open>BadJSON\<close>: the item is a string on which \<^verbatim>\<open>JSON.parse\<close>, or the code that converts
    or reads the parsed value before anything is set from it, throws (for the entries,
    any JSON that is not an array; for the timer data, the JSON \<^verbatim>\<open>null\<close>);
  \<^item> \<open>WrongShape\<close>: nothing throws, but the value is not of the shape that the component
    writes under this key: for the clients and the projects, any JSON that is not an
    array, such as \<^verbatim>\<open>null\<close>;
  \<^item> \<open>Item\<close>: the item decodes to a value of the data model.
  The timer data is the pair of \<^verbatim>\<open>startTime\<close> and \<^verbatim>\<open>initialTime\<close>.
\<close>

datatype 'a blob = ReadFails | NoItem | BadJSON | WrongShape | Item 'a

record 'd storage =
  st_clients :: "'d Client list blob"
  st_projects :: "'d Project list blob"
  st_timeEntries :: "'d TimeEntry list blob"
  st_activeTimer :: "int blob"
  st_timerData :: "(int \<times> int) blob"

text \<open>
  The code sets a state cell to whatever the item decodes to. Once a cell holds a value
  of another shape the component has left the data model, and the model does not follow
  it there: with \<^verbatim>\<open>null\<close> for the clients, for one, the next render throws at
  \<^verbatim>\<open>clients.length\<close>.
\<close>

datatype 'd load_result = Loaded "'d app" | OutsideDataModel

definition on_loaded :: "('d app \<Rightarrow> 'd app) \<Rightarrow> 'd load_result \<Rightarrow> 'd load_result" where
  "on_loaded f r = (case r of Loaded s \<Rightarrow> Loaded (f s) | OutsideDataModel \<Rightarrow> OutsideDataModel)"

definition read_fails :: "'d storage \<Rightarrow> bool" where
  "read_fails st =
     (st_clients st = ReadFails \<or> st_projects st = ReadFails \<or> st_timeEntries st = ReadFails
      \<or> st_activeTimer st = ReadFails \<or> st_timerData st = ReadFails)"

text \<open>
  \<^verbatim>\<open>if (data) set(JSON.parse(data))\<close>: \<open>None\<close> when the statement throws, otherwise what the
  component holds after it.
\<close>

definition set_parsed ::
  "'a blob \<Rightarrow> ('a \<Rightarrow> 'd app \<Rightarrow> 'd app) \<Rightarrow> 'd load_result \<Rightarrow> 'd load_result option" where
  "set_parsed b setter r =
     (case b of
        Item v \<Rightarrow> Some (on_loaded (setter v) r)
      | WrongShape \<Rightarrow> Some OutsideDataModel
      | BadJSON \<Rightarrow> None
      | _ \<Rightarrow> Some r)"

text \<open>
  The restoration of the timer, when both of its items are present: the timer data is
  parsed first, then the active timer, then the three cells are set.
\<close>

definition restore_timer :: "int \<Rightarrow> 'd storage \<Rightarrow> 'd load_result \<Rightarrow> 'd load_result option" where
  "restore_timer now st r =
     (if st_activeTimer st \<noteq> NoItem \<and> st_timerData st \<noteq> NoItem
      then (if st_timerData st = BadJSON \<or> st_activeTimer st = BadJSON then None
            else case (st_timerData st, st_activeTimer st) of
                   (Item (startTime, initialTime), Item projectId) \<Rightarrow>
                     Some (on_loaded
                             (\<lambda>s. s\<lparr> activeTimer := Some projectId,
                                      currentTime := initialTime + (now - startTime) div 1000,
                                      timerStartTime := Some startTime \<rparr>) r)
                 | _ \<Rightarrow> Some OutsideDataModel)
      else Some r)"

definition load_error :: app_error where
  "load_error = LoadError ''Error loading data. Please restart the app.''"

text \<open>
  \<open>loadData now st s\<close>: the five reads come first; then the statements of the \<^verbatim>\<open>try\<close> block
  run in their order, and the \<^verbatim>\<open>catch\<close> block reports the first exception with \<open>showError\<close>,
  keeping what was set before.
\<close>

definition loadData :: "int \<Rightarrow> 'd storage \<Rightarrow> 'd app \<Rightarrow> 'd load_result" where
  "loadData now st s =
     (if read_fails st then Loaded (showError load_error s)
      else case set_parsed (st_clients st) (\<lambda>v s. s\<lparr>clients := v\<rparr>) (Loaded s) of
             None \<Rightarrow> Loaded (showError load_error s)
           | Some r1 \<Rightarrow>
      (case set_parsed (st_projects st) (\<lambda>v s. s\<lparr>projects := v\<rparr>) r1 of
             None \<Rightarrow> on_loaded (showError load_error) r1
           | Some r2 \<Rightarrow>
      (case set_parsed (st_timeEntries st) (\<lambda>v s. s\<lparr>timeEntries := v\<rparr>) r2 of
             None \<Rightarrow> on_loaded (showError load_error) r2
           | Some r3 \<Rightarrow>
      (case restore_timer now st r3 of
             None \<Rightarrow> on_loaded (showError load_error) r3
           | Some r4 \<Rightarrow> r4))))"

section \<open>Aggregation\<close>

definition getTotalHours :: "(jsnum \<Rightarrow> string) \<Rightarrow> 'd app \<Rightarrow> int \<Rightarrow> string" where
  "getTotalHours numberToString s projectId =
     (let total = foldl (\<lambda>sum entry. sum + entry_duration entry) 0
                    (filter (\<lambda>entry. entry_projectId entry = projectId) (timeEntries s))
      in toFixed numberToString 1 (fl (of_int total / 3600)))"

datatype js_value = NumberValue jsnum | StringValue string

definition getTotalEarnings :: "(jsnum \<Rightarrow> string) \<Rightarrow> 'd app \<Rightarrow> int \<Rightarrow> js_value" where
  "getTotalEarnings numberToString s projectId =
     (case find (\<lambda>p. project_id p = projectId) (projects s) of
        None \<Rightarrow> NumberValue (Num 0)
      | Some project \<Rightarrow>
          if project_rate project = 0 then NumberValue (Num 0)
          else (let totalSeconds = foldl (\<lambda>sum entry. sum + entry_duration entry) 0
                       (filter (\<lambda>entry. entry_projectId entry = projectId) (timeEntries s));
                    totalHours = fl (of_int totalSeconds / 3600)
                in StringValue
                     (toFixed numberToString 2 (js_mul totalHours (Num (project_rate project))))))"

section \<open>CSV export\<close>

fun join :: "string \<Rightarrow> string list \<Rightarrow> string" where
  "join sep [] = []"
| "join sep [x] = x"
| "join sep (x # y # ys) = x @ sep @ join sep (y # ys)"

text \<open>\<^verbatim>\<open>x?.name || 'Unknown'\<close>: a missing object and an empty name both give \<^verbatim>\<open>'Unknown'\<close>.\<close>

definition or_unknown :: "string option \<Rightarrow> string" where
  "or_unknown n = (case n of None \<Rightarrow> ''Unknown'' | Some v \<Rightarrow> if v = [] then ''Unknown'' else v)"

definition quote :: string where
  "quote = [CHR 0x22]"

definition headers :: string where
  "headers = ''Date,Client,Project,Duration (hours),Rate,Total,Status'' @ [CHR 0x0A]"

text \<open>
  One row of the export. \<open>numberToString\<close> is \<^verbatim>\<open>Number::toString\<close>, which the template
  applies to the rate, and \<open>toLocaleDateString\<close> the method of that name of \<^verbatim>\<open>Date\<close>. In
  \<^verbatim>\<open>hours * rate\<close> the string \<^verbatim>\<open>hours\<close> is converted back to a Number.
\<close>

definition csv_row ::
  "(jsnum \<Rightarrow> string) \<Rightarrow> ('d \<Rightarrow> string) \<Rightarrow> 'd app \<Rightarrow> 'd TimeEntry \<Rightarrow> string" where
  "csv_row numberToString toLocaleDateString s entry =
     (let project = find (\<lambda>p. project_id p = entry_projectId entry) (projects s);
          client = (case project of
                      None \<Rightarrow> None
                    | Some p \<Rightarrow> find (\<lambda>c. strict_eq (Num (of_int (client_id c)))
                                              (project_clientId p)) (clients s));
          hours = toFixed numberToString 2 (fl (of_int (entry_duration entry) / 3600));
          rate = (case project of None \<Rightarrow> 0 | Some p \<Rightarrow> project_rate p);
          total = toFixed numberToString 2 (js_mul (toNumber hours) (Num rate))
      in quote @ toLocaleDateString (entry_date entry) @ quote @ '','' @
         quote @ or_unknown (map_option client_name client) @ quote @ '','' @
         quote @ or_unknown (map_option project_name project) @ quote @ '','' @
         hours @ '','' @ numberToString (Num rate) @ '','' @ total @ '','' @
         quote @ (if entry_status entry = [] then ''completed'' else entry_status entry) @ quote)"

text \<open>
  What became of \<^verbatim>\<open>RNFS.writeFile\<close> and \<^verbatim>\<open>Share.open\<close>: both succeeded, one threw an error
  whose message contains \<^verbatim>\<open>'User did not share'\<close>, or one threw another error.
\<close>

datatype export_io = Shared | UserDidNotShare | OtherFailure

text \<open>
  \<open>exportToCSV\<close> returns the state after the call and the text that it gave to
  \<^verbatim>\<open>RNFS.writeFile\<close>, if it came that far.
\<close>

definition exportToCSV ::
  "(jsnum \<Rightarrow> string) \<Rightarrow> ('d \<Rightarrow> string) \<Rightarrow> export_io \<Rightarrow> 'd app \<Rightarrow> 'd app \<times> string option" where
  "exportToCSV numberToString toLocaleDateString io s =
     (if timeEntries s = []
      then (showError (ExportError ''No time entries to export'') s, None)
      else (let rows = join [CHR 0x0A]
                         (map (csv_row numberToString toLocaleDateString s) (timeEntries s));
                csvContent = headers @ rows;
                s1 = (if io = OtherFailure
                      then showError (ExportError ''Failed to export data. Please try again.'') s
                      else s)
            in (s1\<lparr>isExporting := False\<rparr>, Some csvContent)))"

section \<open>The vocabulary of the specification\<close>

text \<open>
  The specification speaks of three states of the timer engine. A timer is active when
  \<^verbatim>\<open>activeTimer\<close> is truthy; it is running while the application is in the foreground and
  suspended otherwise.
\<close>

datatype timer_state = Idle | Running | Suspended

definition timer_state_of :: "'d app \<Rightarrow> timer_state" where
  "timer_state_of s =
     (if \<not> truthy (activeTimer s) then Idle
      else if appState s = Some Active then Running else Suspended)"

text \<open>A name is valid when its trimmed length is between 1 and 50.\<close>

definition valid_name :: "string \<Rightarrow> bool" where
  "valid_name n = (0 < length (trim n) \<and> length (trim n) \<le> 50)"

definition equal_ignoring_case :: "string \<Rightarrow> string \<Rightarrow> bool" where
  "equal_ignoring_case a b = (toLowerCase a = toLowerCase b)"

text \<open>An existing client has the trimmed name, up to case.\<close>

definition name_taken :: "'d app \<Rightarrow> string \<Rightarrow> bool" where
  "name_taken s n = (\<exists>c \<in> set (clients s). equal_ignoring_case (client_name c) (trim n))"

text \<open>
  A text is a number when, after leading white space and a sign, the whole of it is one
  decimal literal or \<^verbatim>\<open>Infinity\<close>; it denotes the double nearest to the literal. A rate text
  is valid when it is a number between 0 and 10000.
\<close>

definition number_of_text :: "string \<Rightarrow> jsnum option" where
  "number_of_text t =
     (let (neg, u) = take_sign (trimStart t)
      in case str_unsigned_decimal u of
           None \<Rightarrow> None
         | Some (v, rest) \<Rightarrow> if rest = [] then Some (signed_value neg v) else None)"

definition valid_rate :: "string \<Rightarrow> bool" where
  "valid_rate t =
     (case number_of_text t of Some (Num q) \<Rightarrow> 0 \<le> q \<and> q \<le> 10000 | _ \<Rightarrow> False)"

text \<open>
  The text starts with a number and goes on with other characters, as \<^verbatim>\<open>50abc\<close> and \<^verbatim>\<open>12,5\<close>
  do.
\<close>

definition number_then_more :: "string \<Rightarrow> bool" where
  "number_then_more t =
     (let (neg, u) = take_sign (trimStart t)
      in case str_unsigned_decimal u of
           None \<Rightarrow> False
         | Some (v, rest) \<Rightarrow> rest \<noteq> [])"

text \<open>
  An existing project has the client id that \<^verbatim>\<open>parseInt\<close> reads from the form and the
  trimmed name, up to case.
\<close>

definition project_taken :: "'d app \<Rightarrow> NewProject \<Rightarrow> bool" where
  "project_taken s np =
     (\<exists>p \<in> set (projects s).
        strict_eq (project_clientId p) (parseInt (np_clientId np))
        \<and> equal_ignoring_case (project_name p) (trim (np_name np)))"

text \<open>The sum of the durations of the entries of a project, in seconds.\<close>

definition total_seconds :: "'d app \<Rightarrow> int \<Rightarrow> int" where
  "total_seconds s projectId =
     sum_list (map entry_duration
                 (filter (\<lambda>entry. entry_projectId entry = projectId) (timeEntries s)))"

text \<open>The form of a new project passes validation.\<close>

definition form_valid :: "NewProject \<Rightarrow> bool" where
  "form_valid np =
     (valid_name (np_name np) \<and> np_clientId np \<noteq> []
      \<and> (np_rate np = [] \<or> valid_rate (np_rate np)))"

text \<open>
  Some stored blob fails to be read, or fails to be parsed when \<open>loadData\<close> comes to it. The
  two timer blobs are parsed only when both are present.
\<close>

definition load_fails :: "'d storage \<Rightarrow> bool" where
  "load_fails st =
     (read_fails st \<or> st_clients st = BadJSON \<or> st_projects st = BadJSON
      \<or> st_timeEntries st = BadJSON
      \<or> (st_activeTimer st \<noteq> NoItem \<and> st_timerData st \<noteq> NoItem
          \<and> (st_timerData st = BadJSON \<or> st_activeTimer st = BadJSON)))"

text \<open>
  The load sets a cell to a value of another shape than the data model's: no read fails,
  and a statement with such a value is reached before any statement throws.
\<close>

definition stores_wrong_shape :: "'d storage \<Rightarrow> bool" where
  "stores_wrong_shape st =
     (\<not> read_fails st
      \<and> (st_clients st = WrongShape
          \<or> (st_clients st \<noteq> BadJSON
              \<and> (st_projects st = WrongShape
                  \<or> (st_projects st \<noteq> BadJSON
                      \<and> (st_timeEntries st = WrongShape
                          \<or> (st_timeEntries st \<noteq> BadJSON
                              \<and> st_activeTimer st \<noteq> NoItem \<and> st_timerData st \<noteq> NoItem
                              \<and> st_activeTimer st \<noteq> BadJSON \<and> st_timerData st \<noteq> BadJSON
                              \<and> (st_activeTimer st = WrongShape
                                  \<or> st_timerData st = WrongShape))))))))"

text \<open>The collection after a blob was parsed: its decoded value, if it holds one.\<close>

definition loaded :: "'a blob \<Rightarrow> 'a \<Rightarrow> 'a" where
  "loaded b old = (case b of Item v \<Rightarrow> v | _ \<Rightarrow> old)"

text \<open>
  The fields of a row of the export, as the specification describes them: the project of
  an entry and the client of that project, with \<^verbatim>\<open>Unknown\<close> for a missing name; the hours to
  two decimals; the total, the hours field times the rate of the project (0 without a
  project), to two decimals.
\<close>

definition project_of :: "'d app \<Rightarrow> 'd TimeEntry \<Rightarrow> 'd Project option" where
  "project_of s e = find (\<lambda>p. project_id p = entry_projectId e) (projects s)"

definition client_of :: "'d app \<Rightarrow> 'd TimeEntry \<Rightarrow> 'd Client option" where
  "client_of s e =
     (case project_of s e of
        None \<Rightarrow> None
      | Some p \<Rightarrow> find (\<lambda>c. strict_eq (Num (of_int (client_id c))) (project_clientId p))
                    (clients s))"

definition rate_of :: "'d app \<Rightarrow> 'd TimeEntry \<Rightarrow> rat" where
  "rate_of s e = (case project_of s e of None \<Rightarrow> 0 | Some p \<Rightarrow> project_rate p)"

definition hours_field :: "(jsnum \<Rightarrow> string) \<Rightarrow> 'd TimeEntry \<Rightarrow> string" where
  "hours_field numberToString e =
     toFixed numberToString 2 (fl (of_int (entry_duration e) / 3600))"

definition total_field :: "(jsnum \<Rightarrow> string) \<Rightarrow> 'd app \<Rightarrow> 'd TimeEntry \<Rightarrow> string" where
  "total_field numberToString s e =
     toFixed numberToString 2
       (js_mul (toNumber (hours_field numberToString e)) (Num (rate_of s e)))"

definition client_field :: "'d app \<Rightarrow> 'd TimeEntry \<Rightarrow> string" where
  "client_field s e =
     (case client_of s e of
        None \<Rightarrow> ''Unknown''
      | Some c \<Rightarrow> if client_name c = [] then ''Unknown'' else client_name c)"

definition project_field :: "'d app \<Rightarrow> 'd TimeEntry \<Rightarrow> string" where
  "project_field s e =
     (case project_of s e of
        None \<Rightarrow> ''Unknown''
      | Some p \<Rightarrow> if project_name p = [] then ''Unknown'' else project_name p)"

definition status_field :: "'d TimeEntry \<Rightarrow> string" where
  "status_field e = (if entry_status e = [] then ''completed'' else entry_status e)"

definition quoted :: "string \<Rightarrow> string" where
  "quoted x = [CHR 0x22] @ x @ [CHR 0x22]"

definition export_row ::
  "(jsnum \<Rightarrow> string) \<Rightarrow> ('d \<Rightarrow> string) \<Rightarrow> 'd app \<Rightarrow> 'd TimeEntry \<Rightarrow> string" where
  "export_row numberToString toLocaleDateString s e =
     join '',''
       [quoted (toLocaleDateString (entry_date e)), quoted (client_field s e),
        quoted (project_field s e), hours_field numberToString e,
        numberToString (Num (rate_of s e)), total_field numberToString s e,
        quoted (status_field e)]"

section \<open>Example states\<close>

text \<open>The component after mounting in the foreground, with dates of the trivial type.\<close>

definition idle_app :: "unit app" where
  "idle_app = initial_app (Some Active)"

text \<open>A timer started on project 7 at clock reading 1000, its interval registered.\<close>

definition running_app :: "unit app" where
  "running_app =
     idle_app\<lparr> activeTimer := Some 7, timerStartTime := Some 1000, interval_set := True \<rparr>"

text \<open>The same timer ten seconds later.\<close>

definition ten_seconds_app :: "unit app" where
  "ten_seconds_app = running_app\<lparr>currentTime := 10\<rparr>"

definition acme :: "unit Client" where
  "acme = \<lparr> client_id = 1000, client_name = ''Acme'', client_createdAt = () \<rparr>"

definition website :: "unit Project" where
  "website = \<lparr> project_id = 2000, project_name = ''Website'', project_clientId = Num 1000,
               project_rate = 50, project_createdAt = () \<rparr>"

definition work :: "unit TimeEntry" where
  "work = \<lparr> entry_id = 128000, entry_projectId = 2000, entry_duration = 125,
            entry_date = (), entry_status = ''completed'' \<rparr>"

text \<open>One client, \<^verbatim>\<open>Acme\<close>, added at clock reading 1000.\<close>

definition acme_app :: "unit app" where
  "acme_app = idle_app\<lparr>clients := [acme]\<rparr>"

text \<open>
  Scenario A of the specification: client \<^verbatim>\<open>Acme\<close>, project \<^verbatim>\<open>Website\<close> at rate 50, a timer
  on it for 125 seconds, then \<open>stopTimer\<close>.
\<close>

definition website_app :: "unit app" where
  "website_app = acme_app\<lparr>projects := [website]\<rparr>"

definition scenario_A :: "unit app" where
  "scenario_A = website_app\<lparr>timeEntries := [work]\<rparr>"

text \<open>The forms of the examples: a client name, and a project of client 1000.\<close>

definition beta_form_app :: "unit app" where
  "beta_form_app = acme_app\<lparr>newClient := ''Beta''\<rparr>"

definition acme_again_app :: "unit app" where
  "acme_again_app = acme_app\<lparr>newClient := ''acme''\<rparr>"

definition blog_form_app :: "unit app" where
  "blog_form_app =
     website_app\<lparr>newProject := \<lparr> np_name = ''Blog'', np_clientId = ''1000'', np_rate = [] \<rparr>\<rparr>"

definition website_again_app :: "unit app" where
  "website_again_app =
     website_app\<lparr>newProject := \<lparr> np_name = '' WEBSITE '', np_clientId = ''1000'',
                                   np_rate = ''75'' \<rparr>\<rparr>"

text \<open>A rate text that starts with a number and goes on.\<close>

definition prefix_rate_app :: "unit app" where
  "prefix_rate_app =
     website_app\<lparr>newProject := \<lparr> np_name = ''Blog'', np_clientId = ''1000'',
                                   np_rate = ''12,5'' \<rparr>\<rparr>"

text \<open>A storage whose projects blob is not JSON, and one whose projects blob cannot be read.\<close>

definition corrupt_projects :: "unit storage" where
  "corrupt_projects =
     \<lparr> st_clients = Item [acme], st_projects = BadJSON, st_timeEntries = Item [work],
       st_activeTimer = NoItem, st_timerData = NoItem \<rparr>"

definition unreadable_projects :: "unit storage" where
  "unreadable_projects = corrupt_projects\<lparr>st_projects := ReadFails\<rparr>"

text \<open>The clients blob is the JSON \<^verbatim>\<open>null\<close>, and the projects blob is not JSON.\<close>

definition null_clients :: "unit storage" where
  "null_clients = corrupt_projects\<lparr>st_clients := WrongShape\<rparr>"

text \<open>Scenario A with a second, later entry whose project does not exist.\<close>

definition orphan :: "unit TimeEntry" where
  "orphan = \<lparr> entry_id = 200000, entry_projectId = 9999, entry_duration = 1800,
              entry_date = (), entry_status = ''paused'' \<rparr>"

definition orphan_app :: "unit app" where
  "orphan_app = scenario_A\<lparr>timeEntries := [work, orphan]\<rparr>"

text \<open>\<^verbatim>\<open>Number::toString\<close> on the integers, which is all that the examples apply it to.\<close>

definition integer_string :: "jsnum \<Rightarrow> string" where
  "integer_string x = (case x of Num q \<Rightarrow> digits_of \<lfloor>q\<rfloor> | _ \<Rightarrow> [])"

section \<open>Facts about the model\<close>

subsection \<open>Evaluation of the primitives on the examples\<close>

lemma trim_examples:
  "trim ''Acme'' = ''Acme''" "trim ''Website'' = ''Website''" "trim ''acme'' = ''acme''"
  "trim ''Beta'' = ''Beta''"
  by code_simp+

lemma valid_name_examples:
  "valid_name ''Acme''" "valid_name ''Website''" "valid_name ''acme''" "valid_name ''Beta''"
  by code_simp+

lemma parse_examples:
  "parseInt ''1000'' = Num 1000" "parseFloat ''50'' = Num 50" "valid_rate ''50''"
  "rate_or_zero ''50'' = 50"
  by code_simp+

lemma parseFloat_empty: "parseFloat [] = NaN"
  by code_simp

text \<open>\<^verbatim>\<open>parseInt\<close> returns a double: beyond \<open>2^53\<close> it rounds the integer that it read.\<close>

lemma parseInt_rounds: "parseInt ''9007199254740993'' = Num 9007199254740992"
  by code_simp

lemma more_examples:
  "trim ''Blog'' = ''Blog''" "valid_name ''Blog''" "valid_name '' WEBSITE ''"
  "trim '' WEBSITE '' = ''WEBSITE''"
  "toLowerCase ''Website'' = ''website''" "toLowerCase ''WEBSITE'' = ''website''"
  "toLowerCase ''Acme'' = ''acme''" "toLowerCase ''acme'' = ''acme''"
  "toLowerCase ''Beta'' = ''beta''" "toLowerCase ''Blog'' = ''blog''"
  "valid_rate ''75''"
  by code_simp+

lemma export_values:
  "hours_field integer_string work = ''0.03''"
  "toFixed integer_string 2 (js_mul (toNumber ''0.03'') (Num 50)) = ''1.50''"
  "hours_field integer_string orphan = ''0.50''"
  "toFixed integer_string 2 (js_mul (toNumber ''0.50'') (Num 0)) = ''0.00''"
  "integer_string (Num 50) = ''50''" "integer_string (Num 0) = ''0''"
  by code_simp+

text \<open>
  The quotient by 3600 is a double before it is rendered: 540 seconds are 0.15 hours, the
  nearest double lies below 0.15, and \<^verbatim>\<open>toFixed(1)\<close> renders it as 0.1.
\<close>

lemma toFixed_of_the_double: "toFixed numberToString 1 (fl (540 / 3600)) = ''0.1''"
  by code_simp

subsection \<open>Validation\<close>

lemma validateInput_name:
  "validateInput n ''client'' = valid_name n"
  "validateInput n ''project'' = valid_name n"
  by (simp_all add: validateInput_def valid_name_def)

lemma validateInput_rate:
  "validateInput t ''rate'' = (t = [] \<or> (\<exists>q. parseFloat t = Num q \<and> 0 \<le> q \<and> q \<le> 10000))"
  by (cases "parseFloat t") (simp_all add: validateInput_def isNaN_def)

text \<open>
  After validation the parse of the rate is \<^verbatim>\<open>NaN\<close>, for the empty text, or a finite number
  in range: \<open>rate_or_zero\<close> never meets an infinity.
\<close>

lemma rate_or_zero_empty: "rate_or_zero [] = 0"
  by (simp add: rate_or_zero_def parseFloat_empty)

text \<open>On a text that is a number, \<^verbatim>\<open>parseFloat\<close> returns the number.\<close>

lemma parseFloat_number_of_text: "number_of_text t = Some v \<Longrightarrow> parseFloat t = v"
  by (auto simp add: number_of_text_def parseFloat_def Let_def
      split: prod.splits option.splits if_splits)

text \<open>On a text that neither is a number nor starts with one, it returns \<^verbatim>\<open>NaN\<close>.\<close>

lemma parseFloat_no_number:
  "number_of_text t = None \<Longrightarrow> \<not> number_then_more t \<Longrightarrow> parseFloat t = NaN"
  by (auto simp add: number_of_text_def number_then_more_def parseFloat_def Let_def
      split: prod.splits option.splits if_splits)

lemma valid_rate_accepted:
  assumes "valid_rate t"
  shows "validateInput t ''rate''" and "number_of_text t = Some (Num (rate_or_zero t))"
proof -
  from assms obtain q where q: "number_of_text t = Some (Num q)" "0 \<le> q" "q \<le> 10000"
    by (auto simp add: valid_rate_def split: option.splits jsnum.splits)
  then have "parseFloat t = Num q" by (simp add: parseFloat_number_of_text)
  with q show "validateInput t ''rate''" and "number_of_text t = Some (Num (rate_or_zero t))"
    by (simp_all add: validateInput_rate rate_or_zero_def)
qed

lemma invalid_rate_rejected:
  assumes "t \<noteq> []" and "\<not> number_then_more t" and "\<not> valid_rate t"
  shows "\<not> validateInput t ''rate''"
proof (cases "number_of_text t")
  case None
  with assms have "parseFloat t = NaN" by (simp add: parseFloat_no_number)
  with assms show ?thesis by (simp add: validateInput_rate)
next
  case (Some v)
  then have "parseFloat t = v" by (rule parseFloat_number_of_text)
  with Some assms show ?thesis
    by (auto simp add: validateInput_rate valid_rate_def)
qed

subsection \<open>The interval and the sums\<close>

lemma tick_funpow:
  "interval_set s \<Longrightarrow> (tick ^^ n) s = s\<lparr>currentTime := currentTime s + int n\<rparr>"
  by (induction n) (simp_all add: tick_def)

lemma foldl_add_durations:
  "foldl (\<lambda>sum entry. sum + entry_duration entry) a es = a + sum_list (map entry_duration es)"
  by (induction es arbitrary: a) simp_all

subsection \<open>The example states are reached by the operations\<close>

lemma running_app_reached:
  "render idle_app (startTimer 0 () 1000 7 idle_app) = running_app"
  by (simp add: running_app_def idle_app_def initial_app_def render_def startTimer_def
      timer_effect_def truthy_def)

lemma ten_seconds_app_reached: "(tick ^^ 10) running_app = ten_seconds_app"
  by (simp add: tick_funpow running_app_def ten_seconds_app_def idle_app_def initial_app_def)

lemma acme_app_reached:
  "addClient 1000 () (idle_app\<lparr>newClient := ''Acme''\<rparr>) = acme_app"
  by (simp add: addClient_def validateInput_name valid_name_examples trim_examples
      acme_app_def acme_def idle_app_def initial_app_def)

lemma website_app_reached:
  "addProject 2000 ()
     (acme_app\<lparr>newProject := \<lparr> np_name = ''Website'', np_clientId = ''1000'',
                                np_rate = ''50'' \<rparr>\<rparr>) = website_app"
  by (simp add: addProject_def Let_def validateInput_name validateInput_rate
      valid_name_examples trim_examples parse_examples website_app_def website_def
      acme_app_def idle_app_def initial_app_def)

lemma scenario_A_reached:
  "render ((tick ^^ 125) (render website_app (startTimer 0 () 3000 2000 website_app)))
     (stopTimer 128000 ()
        ((tick ^^ 125) (render website_app (startTimer 0 () 3000 2000 website_app))))
   = scenario_A"
  by (simp add: tick_funpow stopTimer_def render_def startTimer_def timer_effect_def truthy_def
      scenario_A_def work_def website_app_def acme_app_def idle_app_def initial_app_def)

subsection \<open>The rows of the export\<close>

lemma csv_row_export_row:
  "csv_row numberToString toLocaleDateString s e
     = export_row numberToString toLocaleDateString s e"
  by (simp add: csv_row_def export_row_def Let_def quoted_def quote_def project_of_def
      client_of_def rate_of_def hours_field_def total_field_def client_field_def
      project_field_def status_field_def or_unknown_def split: option.splits)

lemma csv_row_eq:
  "csv_row numberToString toLocaleDateString s = export_row numberToString toLocaleDateString s"
  by (rule ext) (rule csv_row_export_row)

section \<open>The claims\<close>

subsection \<open>Timer engine\<close>

text \<open>
  C1. The specification says that, for a running timer, going to the background and
  returning 300 seconds later adds exactly 300 seconds, because the tick adds nothing
  while the application is in the background. In the code the interval registered by the
  timer effect is not cleared by a change of the application state: the effect depends
  on \<^verbatim>\<open>activeTimer\<close> only. Each callback of the interval that runs between the two
  transitions adds a second, and the return to the foreground adds the 300 seconds on top:
  after \<open>n\<close> callbacks the elapsed time has grown by \<open>n + 300\<close>. The timer is running again
  afterwards.
\<close>

theorem interval_ticks_while_backgrounded:
  assumes "truthy (activeTimer s)" and "appState s = Some Active" and "interval_set s"
    and "t0 \<noteq> 0"
  shows "\<exists>s1 s2. handleAppStateChange t0 Background s = Inr s1
           \<and> handleAppStateChange (t0 + 300000) Active ((tick ^^ n) s1) = Inr s2
           \<and> currentTime s2 = currentTime s + int n + 300
           \<and> timer_state_of s2 = Running"
  using assms
  by (simp add: handleAppStateChange_def matches_inactive_or_background_def tick_funpow
      truthy_def timer_state_of_def)

theorem interval_ticks_while_backgrounded_witness:
  "\<exists>s1 s2. handleAppStateChange 2000 Background running_app = Inr s1
           \<and> handleAppStateChange 302000 Active ((tick ^^ 300) s1) = Inr s2
           \<and> currentTime s2 = 600
           \<and> timer_state_of s2 = Running"
  using interval_ticks_while_backgrounded [of running_app 2000 300]
  by (simp add: running_app_def idle_app_def initial_app_def truthy_def)

text \<open>
  C2. When the timer of project \<open>A\<close> is active with at least one second elapsed,
  \<open>startTimer B\<close> for another project appends exactly one entry for \<open>A\<close>, completed, with the
  elapsed seconds as duration, and leaves \<open>B\<close> active with no time elapsed.
\<close>

theorem startTimer_other_project_finalizes:
  assumes "activeTimer s = Some A" and "A \<noteq> 0" and "A \<noteq> B" and "1 \<le> currentTime s"
  shows "timeEntries (startTimer now0 date0 now B s) =
           timeEntries s @
             [\<lparr> entry_id = now0, entry_projectId = A, entry_duration = currentTime s,
                entry_date = date0, entry_status = ''completed'' \<rparr>]
         \<and> activeTimer (startTimer now0 date0 now B s) = Some B
         \<and> currentTime (startTimer now0 date0 now B s) = 0"
  using assms by (simp add: startTimer_def stopTimer_def truthy_def Let_def)

theorem startTimer_other_project_finalizes_witness:
  "timeEntries (startTimer 11000 () 11001 8 ten_seconds_app) =
     [\<lparr> entry_id = 11000, entry_projectId = 7, entry_duration = 10,
        entry_date = (), entry_status = ''completed'' \<rparr>]
   \<and> activeTimer (startTimer 11000 () 11001 8 ten_seconds_app) = Some 8
   \<and> currentTime (startTimer 11000 () 11001 8 ten_seconds_app) = 0"
  using startTimer_other_project_finalizes [of ten_seconds_app 7 8 11000 "()" 11001]
  by (simp add: ten_seconds_app_def running_app_def idle_app_def initial_app_def)

text \<open>
  C9. Without an active timer \<open>pauseTimer\<close> emits no entry and leaves the engine idle, and
  it changes nothing at all in an idle state. With an active timer and time elapsed it
  appends exactly one entry, paused, with the elapsed seconds as duration. In every case
  the active timer is cleared and the elapsed time is 0 afterwards.
\<close>

theorem pauseTimer_entry_and_reset:
  "(\<not> truthy (activeTimer s) \<longrightarrow>
      timeEntries (pauseTimer now date s) = timeEntries s
      \<and> timer_state_of (pauseTimer now date s) = Idle)
   \<and> (activeTimer s = None \<and> currentTime s = 0 \<and> timerStartTime s = None \<longrightarrow>
        pauseTimer now date s = s)
   \<and> (truthy (activeTimer s) \<and> 0 < currentTime s \<longrightarrow>
        timeEntries (pauseTimer now date s) =
          timeEntries s @
            [\<lparr> entry_id = now, entry_projectId = the (activeTimer s),
               entry_duration = currentTime s, entry_date = date,
               entry_status = ''paused'' \<rparr>])
   \<and> activeTimer (pauseTimer now date s) = None
   \<and> currentTime (pauseTimer now date s) = 0"
  by (simp add: pauseTimer_def timer_state_of_def truthy_def Let_def)

theorem pauseTimer_entry_and_reset_witness:
  "pauseTimer 11000 () idle_app = idle_app
   \<and> timeEntries (pauseTimer 11000 () ten_seconds_app) =
       [\<lparr> entry_id = 11000, entry_projectId = 7, entry_duration = 10,
          entry_date = (), entry_status = ''paused'' \<rparr>]
   \<and> activeTimer (pauseTimer 11000 () ten_seconds_app) = None
   \<and> currentTime (pauseTimer 11000 () ten_seconds_app) = 0"
  using pauseTimer_entry_and_reset [of idle_app 11000 "()"]
    pauseTimer_entry_and_reset [of ten_seconds_app 11000 "()"]
  by (simp add: ten_seconds_app_def running_app_def idle_app_def initial_app_def truthy_def)

text \<open>
  C10. When the timer of project \<open>P\<close> is already active with time elapsed, \<open>startTimer P\<close>
  for the same project appends no entry and resets the elapsed time to 0: the accrued
  seconds are lost.
\<close>

theorem startTimer_same_project_discards:
  assumes "activeTimer s = Some P" and "0 < currentTime s"
  shows "timeEntries (startTimer now0 date0 now P s) = timeEntries s
         \<and> currentTime (startTimer now0 date0 now P s) = 0
         \<and> activeTimer (startTimer now0 date0 now P s) = Some P"
  using assms by (simp add: startTimer_def Let_def)

theorem startTimer_same_project_discards_witness:
  "timeEntries (startTimer 11000 () 11001 7 ten_seconds_app) = []
   \<and> currentTime (startTimer 11000 () 11001 7 ten_seconds_app) = 0
   \<and> activeTimer (startTimer 11000 () 11001 7 ten_seconds_app) = Some 7"
  using startTimer_same_project_discards [of ten_seconds_app 7 11000 "()" 11001]
  by (simp add: ten_seconds_app_def running_app_def idle_app_def initial_app_def)

subsection \<open>Domain store\<close>

text \<open>
  C3, as amended. \<open>addClient\<close> fails with a validation error when the trimmed name has
  length 0 or more than 50, and with a duplicate error when an existing client has the
  trimmed name up to case; on either error the clients are unchanged. Otherwise it appends
  exactly one client with the trimmed name, whose id is the clock reading \<^verbatim>\<open>Date.now()\<close> of
  the call: the ids stay unique exactly when they were unique and no client has that
  reading as its id already.
\<close>

theorem addClient_outcomes:
  "(length (trim (newClient s)) = 0 \<or> 50 < length (trim (newClient s)) \<longrightarrow>
      (\<exists>m. error (addClient now date s) = Some (ValidationError m))
      \<and> clients (addClient now date s) = clients s)
   \<and> (valid_name (newClient s) \<and> name_taken s (newClient s) \<longrightarrow>
        (\<exists>m. error (addClient now date s) = Some (DuplicateError m))
        \<and> clients (addClient now date s) = clients s)
   \<and> (valid_name (newClient s) \<and> \<not> name_taken s (newClient s) \<longrightarrow>
        clients (addClient now date s) =
          clients s @ [\<lparr> client_id = now, client_name = trim (newClient s),
                          client_createdAt = date \<rparr>]
        \<and> (distinct (map client_id (clients (addClient now date s))) \<longleftrightarrow>
             distinct (map client_id (clients s)) \<and> now \<notin> client_id ` set (clients s)))"
  by (auto simp add: addClient_def validateInput_name valid_name_def name_taken_def
      equal_ignoring_case_def showError_def list_ex_iff)

theorem addClient_outcomes_witness:
  "(\<exists>m. error (addClient 2000 () acme_again_app) = Some (DuplicateError m))
   \<and> clients (addClient 2000 () acme_again_app) = [acme]
   \<and> clients (addClient 2000 () beta_form_app) =
       [acme, \<lparr> client_id = 2000, client_name = ''Beta'', client_createdAt = () \<rparr>]"
proof -
  have "name_taken acme_again_app (newClient acme_again_app)"
    by (simp add: name_taken_def acme_again_app_def acme_app_def acme_def
        equal_ignoring_case_def more_examples trim_examples)
  moreover have "\<not> name_taken beta_form_app (newClient beta_form_app)"
    by (simp add: name_taken_def beta_form_app_def acme_app_def acme_def
        equal_ignoring_case_def more_examples trim_examples)
  moreover have "valid_name (newClient acme_again_app)" "valid_name (newClient beta_form_app)"
    by (simp_all add: acme_again_app_def beta_form_app_def valid_name_examples)
  ultimately show ?thesis
    using addClient_outcomes [of acme_again_app 2000 "()"]
      addClient_outcomes [of beta_form_app 2000 "()"]
    by (simp add: acme_again_app_def beta_form_app_def acme_app_def trim_examples)
qed

text \<open>
  C3 as stated fails: with the clock at a reading that an existing client has as its id,
  \<open>addClient\<close> succeeds and the new client gets the id of the existing one.
\<close>

theorem addClient_id_not_fresh:
  "error (addClient 1000 () beta_form_app) = None
   \<and> map client_name (clients (addClient 1000 () beta_form_app)) = [''Acme'', ''Beta'']
   \<and> map client_id (clients (addClient 1000 () beta_form_app)) = [1000, 1000]"
  by (simp add: addClient_def validateInput_name valid_name_examples trim_examples
      more_examples beta_form_app_def acme_app_def acme_def idle_app_def initial_app_def)

text \<open>
  C4, as amended. \<open>addProject\<close> fails with a validation error when the trimmed name is empty
  or longer than 50 characters, when no client is selected, or when the rate text is not
  empty and is not a number between 0 and 10000; this leaves aside the rate texts that
  start with a number and go on with other characters. It fails with a duplicate error
  when an existing project has the same client id and the trimmed name up to case. On an
  error the projects are unchanged. Otherwise, with a rate text that is empty or a valid
  number, it appends exactly one project with that number as rate, 0 for the empty text,
  whose id is the clock reading \<^verbatim>\<open>Date.now()\<close> of the call: the ids stay unique exactly when
  they were unique and no project has that reading as its id already.
\<close>

theorem addProject_outcomes:
  "(\<not> valid_name (np_name (newProject s)) \<or> np_clientId (newProject s) = []
      \<or> (np_rate (newProject s) \<noteq> [] \<and> \<not> number_then_more (np_rate (newProject s))
          \<and> \<not> valid_rate (np_rate (newProject s))) \<longrightarrow>
      (\<exists>m. error (addProject now date s) = Some (ValidationError m))
      \<and> projects (addProject now date s) = projects s)
   \<and> (form_valid (newProject s) \<and> project_taken s (newProject s) \<longrightarrow>
        (\<exists>m. error (addProject now date s) = Some (DuplicateError m))
        \<and> projects (addProject now date s) = projects s)
   \<and> (form_valid (newProject s) \<and> \<not> project_taken s (newProject s) \<longrightarrow>
        projects (addProject now date s) =
          projects s @
            [\<lparr> project_id = now, project_name = trim (np_name (newProject s)),
               project_clientId = parseInt (np_clientId (newProject s)),
               project_rate = rate_or_zero (np_rate (newProject s)),
               project_createdAt = date \<rparr>]
        \<and> (if np_rate (newProject s) = [] then rate_or_zero (np_rate (newProject s)) = 0
            else number_of_text (np_rate (newProject s))
                   = Some (Num (rate_or_zero (np_rate (newProject s)))))
        \<and> (distinct (map project_id (projects (addProject now date s))) \<longleftrightarrow>
             distinct (map project_id (projects s)) \<and> now \<notin> project_id ` set (projects s)))"
proof -
  let ?np = "newProject s"
  let ?P = "\<lambda>project. strict_eq (project_clientId project) (parseInt (np_clientId ?np))
                       \<and> toLowerCase (project_name project) = toLowerCase (trim (np_name ?np))"
  have taken: "project_taken s ?np \<longleftrightarrow> find ?P (projects s) \<noteq> None"
    by (auto simp add: project_taken_def equal_ignoring_case_def find_None_iff)
  show ?thesis
  proof (cases "form_valid ?np")
    case False
    have "\<not> validateInput (np_rate ?np) ''rate''"
      if "np_rate ?np \<noteq> []" "\<not> number_then_more (np_rate ?np)" "\<not> valid_rate (np_rate ?np)"
      using that by (rule invalid_rate_rejected)
    with False show ?thesis
      by (auto simp add: form_valid_def addProject_def Let_def validateInput_name showError_def)
  next
    case True
    then have ok: "validateInput (np_name ?np) ''project''" "np_clientId ?np \<noteq> []"
      by (simp_all add: form_valid_def validateInput_name)
    from True have "np_rate ?np = [] \<or> valid_rate (np_rate ?np)"
      by (simp add: form_valid_def)
    then have ok_rate: "validateInput (np_rate ?np) ''rate''"
    proof
      assume "np_rate ?np = []"
      then show ?thesis by (simp add: validateInput_rate)
    next
      assume "valid_rate (np_rate ?np)"
      then show ?thesis by (rule valid_rate_accepted)
    qed
    from True have rate: "if np_rate ?np = [] then rate_or_zero (np_rate ?np) = 0
        else number_of_text (np_rate ?np) = Some (Num (rate_or_zero (np_rate ?np)))"
      by (auto simp add: form_valid_def rate_or_zero_empty valid_rate_accepted)
    from True have first: "\<not> (\<not> valid_name (np_name ?np) \<or> np_clientId ?np = []
      \<or> (np_rate ?np \<noteq> [] \<and> \<not> number_then_more (np_rate ?np) \<and> \<not> valid_rate (np_rate ?np)))"
      by (auto simp add: form_valid_def)
    show ?thesis
    proof (cases "find ?P (projects s)")
      case None
      with True taken ok ok_rate rate first show ?thesis
        by (simp add: addProject_def Let_def)
    next
      case (Some p)
      with True taken ok ok_rate first show ?thesis
        by (simp add: addProject_def Let_def showError_def)
    qed
  qed
qed

theorem addProject_outcomes_witness:
  "(\<exists>m. error (addProject 3000 () website_again_app) = Some (DuplicateError m))
   \<and> projects (addProject 3000 () website_again_app) = [website]
   \<and> projects (addProject 3000 () blog_form_app) =
       [website, \<lparr> project_id = 3000, project_name = ''Blog'', project_clientId = Num 1000,
                   project_rate = 0, project_createdAt = () \<rparr>]"
proof -
  have "project_taken website_again_app (newProject website_again_app)"
    by (simp add: project_taken_def website_again_app_def website_app_def website_def
        equal_ignoring_case_def strict_eq_def more_examples parse_examples)
  moreover have "\<not> project_taken blog_form_app (newProject blog_form_app)"
    by (simp add: project_taken_def blog_form_app_def website_app_def website_def
        equal_ignoring_case_def more_examples trim_examples)
  moreover have "form_valid (newProject website_again_app)"
      "form_valid (newProject blog_form_app)"
    by (simp_all add: form_valid_def website_again_app_def blog_form_app_def more_examples)
  ultimately show ?thesis
    using addProject_outcomes [of website_again_app 3000 "()"]
      addProject_outcomes [of blog_form_app 3000 "()"]
    by (simp add: website_again_app_def blog_form_app_def website_app_def more_examples
        parse_examples rate_or_zero_empty)
qed

text \<open>
  C4 as stated fails in the same way as C3: at a clock reading that is the id of an
  existing project, the new project gets that id.
\<close>

theorem addProject_id_not_fresh:
  "error (addProject 2000 () blog_form_app) = None
   \<and> map project_name (projects (addProject 2000 () blog_form_app)) = [''Website'', ''Blog'']
   \<and> map project_id (projects (addProject 2000 () blog_form_app)) = [2000, 2000]"
  by (simp add: addProject_def Let_def validateInput_name validateInput_rate more_examples
      parse_examples blog_form_app_def website_app_def website_def acme_app_def idle_app_def
      initial_app_def strict_eq_def)

text \<open>
  The rate texts left aside: the message of the validation asks for a valid number, but
  \<^verbatim>\<open>parseFloat\<close> reads the number at the head of the text and ignores the rest, so the text
  \<^verbatim>\<open>12,5\<close> is accepted and stored as the rate 12.
\<close>

lemma addProject_reads_prefix_of_rate:
  "number_then_more ''12,5''"
  "\<not> valid_rate ''12,5''"
  "error (addProject 3000 () prefix_rate_app) = None"
  "map project_rate (projects (addProject 3000 () prefix_rate_app)) = [50, 12]"
proof -
  show "number_then_more ''12,5''" and "\<not> valid_rate ''12,5''"
    by code_simp+
  have p: "parseFloat ''12,5'' = Num 12" "rate_or_zero ''12,5'' = 12"
    by code_simp+
  show "error (addProject 3000 () prefix_rate_app) = None"
    and "map project_rate (projects (addProject 3000 () prefix_rate_app)) = [50, 12]"
    by (simp_all add: addProject_def Let_def validateInput_name validateInput_rate
        more_examples parse_examples p prefix_rate_app_def website_app_def website_def
        acme_app_def idle_app_def initial_app_def strict_eq_def)
qed

subsection \<open>Aggregation\<close>

text \<open>
  C5. \<open>getTotalEarnings\<close> returns 0 when no project has the id or the rate of the project is
  0. Otherwise it returns the seconds of the entries of the project, divided by 3600 and
  multiplied by the rate, rendered to two decimals. In particular, 125 seconds at rate 50
  yield \<^verbatim>\<open>1.74\<close>.
\<close>

theorem getTotalEarnings_spec:
  "((\<forall>p \<in> set (projects s). project_id p \<noteq> projectId) \<longrightarrow>
      getTotalEarnings numberToString s projectId = NumberValue (Num 0))
   \<and> (\<forall>p. find (\<lambda>p. project_id p = projectId) (projects s) = Some p \<longrightarrow>
          getTotalEarnings numberToString s projectId =
            (if project_rate p = 0 then NumberValue (Num 0)
             else StringValue
                    (toFixed numberToString 2
                       (js_mul (fl (of_int (total_seconds s projectId) / 3600))
                          (Num (project_rate p))))))
   \<and> (\<forall>p. find (\<lambda>p. project_id p = projectId) (projects s) = Some p
            \<and> project_rate p = 50 \<and> total_seconds s projectId = 125 \<longrightarrow>
          getTotalEarnings numberToString s projectId = StringValue ''1.74'')"
proof (intro conjI impI allI)
  assume "\<forall>p \<in> set (projects s). project_id p \<noteq> projectId"
  then have "find (\<lambda>p. project_id p = projectId) (projects s) = None"
    by (simp add: find_None_iff)
  then show "getTotalEarnings numberToString s projectId = NumberValue (Num 0)"
    by (simp add: getTotalEarnings_def)
next
  fix p
  assume "find (\<lambda>p. project_id p = projectId) (projects s) = Some p"
  then show "getTotalEarnings numberToString s projectId =
            (if project_rate p = 0 then NumberValue (Num 0)
             else StringValue
                    (toFixed numberToString 2
                       (js_mul (fl (of_int (total_seconds s projectId) / 3600))
                          (Num (project_rate p)))))"
    by (simp add: getTotalEarnings_def total_seconds_def foldl_add_durations Let_def)
next
  fix p
  assume a: "find (\<lambda>p. project_id p = projectId) (projects s) = Some p
               \<and> project_rate p = 50 \<and> total_seconds s projectId = 125"
  then have r: "project_rate p = 50" and t: "total_seconds s projectId = 125"
    by simp_all
  have v: "toFixed numberToString 2 (js_mul (fl (of_int 125 / 3600)) (Num 50)) = ''1.74''"
    by code_simp
  from a have "getTotalEarnings numberToString s projectId =
      StringValue (toFixed numberToString 2
         (js_mul (fl (of_int (total_seconds s projectId) / 3600)) (Num (project_rate p))))"
    by (simp add: getTotalEarnings_def total_seconds_def foldl_add_durations Let_def)
  then show "getTotalEarnings numberToString s projectId = StringValue ''1.74''"
    unfolding r t by (simp only: v)
qed

text \<open>Scenario A has one entry of 125 seconds for the project at rate 50.\<close>

theorem getTotalEarnings_spec_witness:
  "getTotalEarnings integer_string scenario_A 2000 = StringValue ''1.74''
   \<and> getTotalEarnings integer_string scenario_A 9999 = NumberValue (Num 0)"
proof -
  have found: "find (\<lambda>p. project_id p = 2000) (projects scenario_A) = Some website"
    by (simp add: scenario_A_def website_app_def website_def)
  have absent: "\<forall>p \<in> set (projects scenario_A). project_id p \<noteq> 9999"
    by (simp add: scenario_A_def website_app_def website_def)
  have val: "(if project_rate website = 0 then NumberValue (Num 0)
             else StringValue
                    (toFixed integer_string 2
                       (js_mul (fl (of_int (total_seconds scenario_A 2000) / 3600))
                          (Num (project_rate website))))) = StringValue ''1.74''"
    by code_simp
  from getTotalEarnings_spec [of scenario_A 2000 integer_string] found
  have "getTotalEarnings integer_string scenario_A 2000 =
          (if project_rate website = 0 then NumberValue (Num 0)
             else StringValue
                    (toFixed integer_string 2
                       (js_mul (fl (of_int (total_seconds scenario_A 2000) / 3600))
                          (Num (project_rate website)))))"
    by blast
  from this val have "getTotalEarnings integer_string scenario_A 2000 = StringValue ''1.74''"
    by (rule trans)
  moreover from getTotalEarnings_spec [of scenario_A 9999 integer_string] absent
  have "getTotalEarnings integer_string scenario_A 9999 = NumberValue (Num 0)"
    by blast
  ultimately show ?thesis by simp
qed

text \<open>
  C6. \<open>getTotalHours\<close> is the sum of the durations of the entries of the project, divided by
  3600, rendered to one decimal.
\<close>

theorem getTotalHours_spec:
  "getTotalHours numberToString s projectId =
     toFixed numberToString 1 (fl (of_int (total_seconds s projectId) / 3600))"
  by (simp add: getTotalHours_def total_seconds_def foldl_add_durations Let_def)

theorem getTotalHours_spec_witness:
  "getTotalHours integer_string scenario_A 2000 = ''0.0''"
proof -
  have val: "toFixed integer_string 1 (fl (of_int (total_seconds scenario_A 2000) / 3600))
               = ''0.0''"
    by code_simp
  from getTotalHours_spec [of integer_string scenario_A 2000] val show ?thesis
    by (rule trans)
qed

subsection \<open>CSV export\<close>

text \<open>
  C7. For a collection of entries that is not empty, the text of the export is the header
  row followed by one row for each entry, in the order of the collection, each row made
  of the fields that the specification describes.
\<close>

theorem exportToCSV_rows:
  assumes "timeEntries s \<noteq> []"
  shows "snd (exportToCSV numberToString toLocaleDateString io s) =
           Some (''Date,Client,Project,Duration (hours),Rate,Total,Status'' @ [CHR 0x0A] @
                 join [CHR 0x0A]
                   (map (export_row numberToString toLocaleDateString s) (timeEntries s)))"
  using assms by (simp add: exportToCSV_def Let_def headers_def csv_row_eq)

theorem exportToCSV_rows_witness:
  "snd (exportToCSV integer_string (\<lambda>d. ''1/2/2026'') Shared orphan_app) =
     Some (''Date,Client,Project,Duration (hours),Rate,Total,Status'' @ [CHR 0x0A] @
           [CHR 0x22] @ ''1/2/2026'' @ [CHR 0x22] @ '','' @ [CHR 0x22] @ ''Acme'' @ [CHR 0x22]
            @ '','' @ [CHR 0x22] @ ''Website'' @ [CHR 0x22] @ '',0.03,50,1.50,'' @
            [CHR 0x22] @ ''completed'' @ [CHR 0x22] @ [CHR 0x0A] @
           [CHR 0x22] @ ''1/2/2026'' @ [CHR 0x22] @ '','' @ [CHR 0x22] @ ''Unknown'' @ [CHR 0x22]
            @ '','' @ [CHR 0x22] @ ''Unknown'' @ [CHR 0x22] @ '',0.50,0,0.00,'' @
            [CHR 0x22] @ ''paused'' @ [CHR 0x22])"
  using exportToCSV_rows [of orphan_app integer_string "\<lambda>d. ''1/2/2026''" Shared]
  by (simp add: orphan_app_def scenario_A_def website_app_def acme_app_def idle_app_def
      initial_app_def export_row_def quoted_def client_field_def project_field_def
      status_field_def client_of_def project_of_def rate_of_def total_field_def
      work_def orphan_def website_def acme_def strict_eq_def export_values
      export_values [unfolded work_def orphan_def])

subsection \<open>Persistence adapter\<close>

text \<open>
  C8, as amended. When some stored blob fails to be read or parsed, and the load sets no
  cell to a value of another shape than the data model's, \<open>loadData\<close> catches the failure:
  it returns a state of the data model in which a load error is reported. When a read
  fails, no collection is changed. When a parse fails, the collections whose blobs are
  parsed before the failing one, in the order clients, projects, entries, hold what was
  parsed, and the others are unchanged.
\<close>

theorem loadData_reports_and_keeps_parsed:
  assumes "load_fails st" and "\<not> stores_wrong_shape st"
  shows "\<exists>s'. loadData now st s = Loaded s'
     \<and> error s' = Some load_error
     \<and> clients s' =
         (if read_fails st then clients s else loaded (st_clients st) (clients s))
     \<and> projects s' =
         (if read_fails st \<or> st_clients st = BadJSON then projects s
          else loaded (st_projects st) (projects s))
     \<and> timeEntries s' =
         (if read_fails st \<or> st_clients st = BadJSON \<or> st_projects st = BadJSON
          then timeEntries s
          else loaded (st_timeEntries st) (timeEntries s))"
proof (cases "read_fails st")
  case True
  then show ?thesis by (simp add: loadData_def showError_def)
next
  case False
  then have nr: "st_clients st \<noteq> ReadFails" "st_projects st \<noteq> ReadFails"
    "st_timeEntries st \<noteq> ReadFails" "st_activeTimer st \<noteq> ReadFails"
    "st_timerData st \<noteq> ReadFails"
    by (simp_all add: read_fails_def)
  note defs = loadData_def set_parsed_def on_loaded_def showError_def loaded_def
    restore_timer_def load_fails_def stores_wrong_shape_def read_fails_def
  show ?thesis
  proof (cases "st_clients st")
    case BadJSON
    with False show ?thesis by (simp add: defs)
  next
    case ReadFails
    with nr show ?thesis by simp
  next
    case WrongShape
    with False assms show ?thesis by (simp add: stores_wrong_shape_def)
  next
    case NoItem
    with False assms nr show ?thesis
      by (cases "st_projects st"; cases "st_timeEntries st"; cases "st_timerData st";
          cases "st_activeTimer st")
        (simp_all add: defs split: prod.splits)
  next
    case (Item cs)
    with False assms nr show ?thesis
      by (cases "st_projects st"; cases "st_timeEntries st"; cases "st_timerData st";
          cases "st_activeTimer st")
        (simp_all add: defs split: prod.splits)
  qed
qed

theorem loadData_reports_and_keeps_parsed_witness:
  "(\<exists>s'. loadData 0 unreadable_projects idle_app = Loaded s'
          \<and> error s' = Some load_error
          \<and> clients s' = [] \<and> projects s' = [] \<and> timeEntries s' = [])
   \<and> (\<exists>s'. loadData 0 corrupt_projects idle_app = Loaded s'
          \<and> error s' = Some load_error
          \<and> clients s' = [acme] \<and> projects s' = [] \<and> timeEntries s' = [])"
  using loadData_reports_and_keeps_parsed [of unreadable_projects 0 idle_app]
    loadData_reports_and_keeps_parsed [of corrupt_projects 0 idle_app]
  by (simp add: load_fails_def stores_wrong_shape_def read_fails_def loaded_def
      unreadable_projects_def corrupt_projects_def idle_app_def initial_app_def)

text \<open>
  C8 as stated fails: the clients blob is parsed and set before the projects blob fails to
  parse, so after the load with its error the clients are not empty.
\<close>

theorem loadData_partial_load:
  "clients idle_app = []
   \<and> loadData 0 corrupt_projects idle_app
       = Loaded (idle_app\<lparr>clients := [acme], error := Some load_error\<rparr>)"
  by (simp add: loadData_def read_fails_def set_parsed_def on_loaded_def showError_def
      corrupt_projects_def idle_app_def initial_app_def)

text \<open>
  The loads left aside: a value of another shape is stored as it is, whether or not a
  later blob fails to parse, and the component has left the data model.
\<close>

lemma loadData_stores_wrong_shape:
  "stores_wrong_shape st \<Longrightarrow> loadData now st s = OutsideDataModel"
  by (cases "st_clients st"; cases "st_projects st"; cases "st_timeEntries st";
      cases "st_timerData st"; cases "st_activeTimer st")
    (simp_all add: loadData_def set_parsed_def on_loaded_def restore_timer_def
      stores_wrong_shape_def read_fails_def split: prod.splits)

lemma loadData_null_clients: "loadData 0 null_clients idle_app = OutsideDataModel"
  by (simp add: loadData_def read_fails_def set_parsed_def on_loaded_def null_clients_def
      corrupt_projects_def)

end
